theory Spec2Isabelle
  imports Main "HOL-Library.Char_ord" "HOL-Library.List_Lexorder"
begin

section \<open>Go values used by driver.go\<close>

text \<open>
  A Go \<open>error\<close> is modelled by its message: \<open>None\<close> is \<open>nil\<close>, \<open>Some msg\<close> an error
  whose \<open>Error()\<close> is \<open>msg\<close>. A call either returns or panics.
\<close>

type_synonym go_error = "string option"

datatype 'a outcome = Returns 'a | Panics string

text \<open>
  A \<open>map[string]string\<close> is either \<open>nil\<close> or a reference to a hash table. Reading a
  missing key (of either) gives the zero value \<open>""\<close>; \<open>delete\<close> on \<open>nil\<close> does nothing;
  assigning to an entry of a \<open>nil\<close> map panics.
\<close>

datatype strmap = NilMap | GoMap "string \<rightharpoonup> string"

fun mapIndex :: "strmap \<Rightarrow> string \<Rightarrow> string" where
  "mapIndex NilMap k = ''''"
| "mapIndex (GoMap m) k = (case m k of None \<Rightarrow> '''' | Some v \<Rightarrow> v)"

fun mapKeys :: "strmap \<Rightarrow> string set" where
  "mapKeys NilMap = {}"
| "mapKeys (GoMap m) = dom m"

fun mapDelete :: "strmap \<Rightarrow> string \<Rightarrow> strmap" where
  "mapDelete NilMap k = NilMap"
| "mapDelete (GoMap m) k = GoMap (m(k := None))"

fun mapAssign :: "strmap \<Rightarrow> string \<Rightarrow> string \<Rightarrow> strmap outcome" where
  "mapAssign NilMap k v = Panics ''assignment to entry in nil map''"
| "mapAssign (GoMap m) k v = Returns (GoMap (m(k \<mapsto> v)))"

section \<open>The standard library's path.Join\<close>

text \<open>
  \<open>path.Join\<close> and \<open>path.Clean\<close> belong to Go's standard library (package \<open>path\<close>), not
  to the repository; they are modelled after the library's implementation, byte by byte.
  \<open>clean_loop rooted rest out dotdot\<close> is the main loop of \<open>Clean\<close>: \<open>rest\<close> is the
  unread part \<open>path[r:]\<close>, \<open>out\<close> the bytes written so far (so \<open>out.w = length out\<close>).
  \<open>backtrack dotdot out c\<close> is the inner loop that removes the last element: \<open>c\<close>
  is the byte at index \<open>out.w\<close>, the one removed last.
\<close>

function backtrack :: "nat \<Rightarrow> string \<Rightarrow> char \<Rightarrow> string" where
  "backtrack dotdot out c =
     (if length out > dotdot \<and> c \<noteq> CHR ''/''
      then backtrack dotdot (butlast out) (last out) else out)"
  by pat_completeness auto
termination
  by (relation "measure (\<lambda>(dotdot, out, c). length out)") auto

declare backtrack.simps [simp del]

function clean_loop :: "bool \<Rightarrow> string \<Rightarrow> string \<Rightarrow> nat \<Rightarrow> string" where
  "clean_loop rooted [] out dotdot = out"
| "clean_loop rooted (c # rest) out dotdot =
     (if c = CHR ''/'' then clean_loop rooted rest out dotdot
      else if c = CHR ''.'' \<and> (rest = [] \<or> hd rest = CHR ''/'')
        then clean_loop rooted rest out dotdot
      else if c = CHR ''.'' \<and> hd rest = CHR ''.''
              \<and> (tl rest = [] \<or> hd (tl rest) = CHR ''/'')
        then (if length out > dotdot
                then clean_loop rooted (tl rest)
                       (backtrack dotdot (butlast out) (last out)) dotdot
              else if \<not> rooted
                then clean_loop rooted (tl rest)
                       ((if length out > 0 then out @ ''/'' else out) @ ''..'')
                       (length ((if length out > 0 then out @ ''/'' else out) @ ''..''))
              else clean_loop rooted (tl rest) out dotdot)
      else clean_loop rooted (dropWhile (\<lambda>x. x \<noteq> CHR ''/'') rest)
             ((if rooted \<and> length out \<noteq> 1 \<or> \<not> rooted \<and> length out \<noteq> 0
               then out @ ''/'' else out)
              @ c # takeWhile (\<lambda>x. x \<noteq> CHR ''/'') rest)
             dotdot)"
  by pat_completeness auto
termination
  by (relation "measure (\<lambda>(rooted, path, out, dotdot). length path)")
     (auto simp: less_Suc_eq_le length_dropWhile_le)

declare clean_loop.simps(2) [simp del]

definition path_Clean :: "string \<Rightarrow> string" where
  "path_Clean path =
     (if path = '''' then ''.''
      else let out = (if hd path = CHR ''/'' then clean_loop True (tl path) ''/'' 1
                      else clean_loop False path '''' 0)
           in if out = '''' then ''.'' else out)"

fun join_loop :: "string \<Rightarrow> string list \<Rightarrow> string" where
  "join_loop buf [] = buf"
| "join_loop buf (e # es) =
     join_loop (if length buf > 0 \<or> e \<noteq> ''''
                then (if length buf > 0 then buf @ ''/'' else buf) @ e
                else buf) es"

definition path_Join :: "string list \<Rightarrow> string" where
  "path_Join elem =
     (if sum_list (map length elem) = 0 then ''''
      else path_Clean (join_loop '''' elem))"

section \<open>The operating system and the libraries the driver calls\<close>

text \<open>
  The world outside the driver: the contents of the readable files, what the operating
  system answers when asked to create a directory tree or to write a file (\<open>None\<close>: it
  succeeds), and the log of the calls made so far, the mutex's \<open>Lock\<close> and \<open>Unlock\<close>
  among them. Permission bits are written in decimal (\<open>0700 = 448\<close>, \<open>0755 = 493\<close>,
  \<open>0600 = 384\<close>). The driver's console output (\<open>fmt.Printf\<close>, under \<open>debug\<close> or not) is
  not modelled.

  \<open>ioutil.WriteFile\<close> opens the file with \<open>O_WRONLY|O_CREATE|O_TRUNC\<close>, writes and closes.
  It can fail at the open, and then the file is as it was; or after the open, and then
  the file has been truncated and holds the bytes that were written before the failure,
  a prefix of the data.
\<close>

datatype write_failure =
    OpenFailed string
  | WriteFailed string nat

datatype event =
    Lock | Unlock
  | Mkdir string nat | MkdirAll string nat
  | WriteFile string string nat

record world =
  files :: "string \<rightharpoonup> string"
  mkdir_err :: "string \<Rightarrow> go_error"
  write_err :: "string \<Rightarrow> write_failure option"
  io_log :: "event list"

definition mutex_Lock :: "world \<Rightarrow> world" where
  "mutex_Lock w = w\<lparr>io_log := io_log w @ [Lock]\<rparr>"

definition mutex_Unlock :: "world \<Rightarrow> world" where
  "mutex_Unlock w = w\<lparr>io_log := io_log w @ [Unlock]\<rparr>"

definition os_Mkdir :: "string \<Rightarrow> nat \<Rightarrow> world \<Rightarrow> world" where
  "os_Mkdir p perm w = w\<lparr>io_log := io_log w @ [Mkdir p perm]\<rparr>"

definition os_MkdirAll :: "string \<Rightarrow> nat \<Rightarrow> world \<Rightarrow> go_error \<times> world" where
  "os_MkdirAll p perm w = (mkdir_err w p, w\<lparr>io_log := io_log w @ [MkdirAll p perm]\<rparr>)"

definition ioutil_WriteFile :: "string \<Rightarrow> string \<Rightarrow> nat \<Rightarrow> world \<Rightarrow> go_error \<times> world" where
  "ioutil_WriteFile p fileData perm w =
     (case write_err w p of
        None \<Rightarrow> (None, w\<lparr>files := (files w)(p \<mapsto> fileData),
                           io_log := io_log w @ [WriteFile p fileData perm]\<rparr>)
      | Some (OpenFailed err) \<Rightarrow>
          (Some err, w\<lparr>io_log := io_log w @ [WriteFile p fileData perm]\<rparr>)
      | Some (WriteFailed err n) \<Rightarrow>
          (Some err, w\<lparr>files := (files w)(p \<mapsto> take n fileData),
                       io_log := io_log w @ [WriteFile p fileData perm]\<rparr>))"

definition ioutil_ReadFile :: "string \<Rightarrow> world \<Rightarrow> string + string" where
  "ioutil_ReadFile p w =
     (case files w p of
        None \<Rightarrow> Inl (''open '' @ p @ '': no such file or directory'')
      | Some fileData \<Rightarrow> Inr fileData)"

text \<open>
  \<open>encoding/json\<close> and the colour function \<open>cyan\<close> (\<open>fatih/color\<close>) are libraries
  outside the repository: they are parameters of the model. \<open>Inl\<close> is the error.
\<close>

record saveData =
  State :: strmap

record extern =
  json_Marshal :: "saveData \<Rightarrow> string + string"
  json_Unmarshal :: "string \<Rightarrow> string + saveData"
  cyan :: "string \<Rightarrow> string"

text \<open>
  The Docker daemon as the engine-api client shows it: whether \<open>NewClient\<close> fails, what
  \<open>ContainerList\<close> returns (the containers' IDs and the error, both), and what
  \<open>ContainerInspect\<close> returns for a container ID.
\<close>

record mountPoint =
  MountName :: string
  MountSource :: string
  MountDriver :: string

record containerJSON =
  Mounts :: "mountPoint list"

record docker =
  NewClient :: go_error
  ContainerList :: "string list \<times> go_error"
  ContainerInspect :: "string \<Rightarrow> string + containerJSON"

section \<open>The standard library's json.Marshal\<close>

text \<open>
  What \<open>json.Marshal\<close> writes for a \<open>saveData\<close>, modelled after the library's
  implementation (\<open>encoding/json\<close>, \<open>encode.go\<close>, and \<open>unicode/utf8\<close>), byte by byte. The
  driver reaches the library through the parameter \<open>json_Marshal\<close>; this is the function
  that the program is built with.

  \<open>utf8_DecodeRuneInString\<close> returns the rune at the head of a string and its width in
  bytes; a byte that starts no valid sequence is \<open>RuneError\<close> of width 1. \<open>utf8_first\<close>
  holds, for a lead byte, the width of its sequence and the range of its second byte.
\<close>

definition RuneError :: nat where
  "RuneError = 0xFFFD"

definition utf8_first :: "nat \<Rightarrow> (nat \<times> nat \<times> nat) option" where
  "utf8_first b =
     (if 0xC2 \<le> b \<and> b \<le> 0xDF then Some (2, 0x80, 0xBF)
      else if b = 0xE0 then Some (3, 0xA0, 0xBF)
      else if 0xE1 \<le> b \<and> b \<le> 0xEC then Some (3, 0x80, 0xBF)
      else if b = 0xED then Some (3, 0x80, 0x9F)
      else if 0xEE \<le> b \<and> b \<le> 0xEF then Some (3, 0x80, 0xBF)
      else if b = 0xF0 then Some (4, 0x90, 0xBF)
      else if 0xF1 \<le> b \<and> b \<le> 0xF3 then Some (4, 0x80, 0xBF)
      else if b = 0xF4 then Some (4, 0x80, 0x8F)
      else None)"

definition utf8_DecodeRuneInString :: "string \<Rightarrow> nat \<times> nat" where
  "utf8_DecodeRuneInString s =
     (if s = [] then (RuneError, 0)
      else
        let s0 = of_char (s ! 0) in
        if s0 < 0x80 then (s0, 1)
        else
          (case utf8_first s0 of
             None \<Rightarrow> (RuneError, 1)
           | Some (sz, lo, hi) \<Rightarrow>
               if length s < sz then (RuneError, 1)
               else
                 let s1 = of_char (s ! 1) in
                 if s1 < lo \<or> hi < s1 then (RuneError, 1)
                 else if sz \<le> 2 then ((s0 mod 32) * 64 + s1 mod 64, 2)
                 else
                   let s2 = of_char (s ! 2) in
                   if s2 < 0x80 \<or> 0xBF < s2 then (RuneError, 1)
                   else if sz \<le> 3
                     then ((s0 mod 16) * 4096 + (s1 mod 64) * 64 + s2 mod 64, 3)
                   else
                     let s3 = of_char (s ! 3) in
                     if s3 < 0x80 \<or> 0xBF < s3 then (RuneError, 1)
                     else ((s0 mod 8) * 262144 + (s1 mod 64) * 4096 + (s2 mod 64) * 64
                             + s3 mod 64, 4)))"

text \<open>
  \<open>appendString\<close> writes a string as a JSON string, with \<open>escapeHTML\<close> set as \<open>Marshal\<close>
  sets it. An ASCII byte is copied when \<open>htmlSafeSet\<close> holds of it and escaped
  otherwise; a byte that starts no valid UTF-8 sequence is written as the six bytes
  \<open>\ufffd\<close>; the runes U+2028 and U+2029 are escaped; every other rune is copied. The short
  escapes of backspace and form feed are those of Go 1.22 and later (earlier releases
  write \<open>\u0008\<close> and \<open>\u000c\<close>).
\<close>

definition htmlSafeSet :: "char \<Rightarrow> bool" where
  "htmlSafeSet b \<longleftrightarrow>
     (0x20::nat) \<le> of_char b
     \<and> b \<notin> {CHR 0x22, CHR ''&'', CHR ''<'', CHR ''>'', CHR 0x5C}"

definition hex :: "nat \<Rightarrow> char" where
  "hex n = ''0123456789abcdef'' ! n"

definition escape_byte :: "char \<Rightarrow> string" where
  "escape_byte b =
     (if b = CHR 0x5C \<or> b = CHR 0x22 then [CHR 0x5C, b]
      else if b = CHR 0x08 then [CHR 0x5C, CHR ''b'']
      else if b = CHR 0x0C then [CHR 0x5C, CHR ''f'']
      else if b = CHR 0x0A then [CHR 0x5C, CHR ''n'']
      else if b = CHR 0x0D then [CHR 0x5C, CHR ''r'']
      else if b = CHR 0x09 then [CHR 0x5C, CHR ''t'']
      else [CHR 0x5C, CHR ''u'', CHR ''0'', CHR ''0'',
            hex (of_char b div 16), hex (of_char b mod 16)])"

function appendString_loop :: "string \<Rightarrow> string" where
  "appendString_loop [] = []"
| "appendString_loop (b # rest) =
     (if of_char b < (0x80::nat)
      then (if htmlSafeSet b then [b] else escape_byte b) @ appendString_loop rest
      else
        (case utf8_DecodeRuneInString (take 4 (b # rest)) of (c, width) \<Rightarrow>
           (if c = RuneError \<and> width = 1
              then [CHR 0x5C, CHR ''u'', CHR ''f'', CHR ''f'', CHR ''f'', CHR ''d'']
            else if c = 0x2028 \<or> c = 0x2029
              then [CHR 0x5C, CHR ''u'', CHR ''2'', CHR ''0'', CHR ''2'', hex (c mod 16)]
            else take width (b # rest))
           @ appendString_loop (drop width (b # rest))))"
  by pat_completeness auto
termination
proof (relation "measure length", goal_cases)
  case 1
  show ?case by simp
next
  case (2 b rest)
  show ?case by simp
next
  case (3 b rest c width)
  have "snd (utf8_DecodeRuneInString (take 4 (b # rest))) \<noteq> 0"
    by (auto simp: utf8_DecodeRuneInString_def Let_def split: if_splits option.splits)
  with 3 have "width \<noteq> 0"
    by (metis snd_conv)
  then show ?case by simp
qed

declare appendString_loop.simps [simp del]

definition appendString :: "string \<Rightarrow> string" where
  "appendString src = [CHR 0x22] @ appendString_loop src @ [CHR 0x22]"

text \<open>
  A map is written as \<open>null\<close> when it is \<open>nil\<close>, and otherwise as its entries between
  braces, in the order of their keys as byte strings, with a comma before every entry
  but the first. The struct is written as its one field, named \<open>state\<close>. For this type
  \<open>Marshal\<close> has no error to return. A Go map is finite: of a map with infinitely many
  keys, which no program holds, the model writes no entry.
\<close>

fun map_entries :: "(string \<rightharpoonup> string) \<Rightarrow> string list \<Rightarrow> string" where
  "map_entries m [] = []"
| "map_entries m [k] =
     appendString k @ '':'' @ (case m k of None \<Rightarrow> [] | Some v \<Rightarrow> appendString v)"
| "map_entries m (k # ks) =
     appendString k @ '':'' @ (case m k of None \<Rightarrow> [] | Some v \<Rightarrow> appendString v)
     @ '','' @ map_entries m ks"

definition mapEncoder :: "strmap \<Rightarrow> string" where
  "mapEncoder v =
     (case v of
        NilMap \<Rightarrow> ''null''
      | GoMap m \<Rightarrow> ''{'' @ map_entries m (sorted_list_of_set (dom m)) @ ''}'')"

definition go_Marshal :: "saveData \<Rightarrow> string + string" where
  "go_Marshal data = Inr (''{'' @ appendString ''state'' @ '':'' @ mapEncoder (State data) @ ''}'')"

section \<open>The driver\<close>

text \<open>
  The struct \<open>localPersistDriver\<close>. Its \<open>mutex\<close> field points to the one mutex whose
  calls the world logs. Every method has a value receiver, and the only writes to the
  driver are to entries of the hash table \<open>volumes\<close> refers to, so they are seen by
  every later call: each operation returns the driver as it leaves it.
\<close>

record localPersistDriver =
  volumes :: strmap
  debug :: bool
  name :: string
  baseDir :: string
  stateDir :: string

record volume_Request =
  Name :: string
  Options :: strmap

record volume_Volume =
  VolName :: string
  VolMountpoint :: string

text \<open>
  \<open>volume.Response\<close>; \<open>Volumes\<close> is a slice filled in the map's iteration order, which
  Go leaves unspecified: it is modelled as the set of its elements.
\<close>

record volume_Response =
  Mountpoint :: string
  Err :: string
  Volumes :: "volume_Volume set"
  Volume :: "volume_Volume option"

text \<open>\<open>Response0\<close> is the zero value \<open>volume.Response{}\<close>: no error.\<close>

definition Response0 :: volume_Response where
  "Response0 = \<lparr>Mountpoint = '''', Err = '''', Volumes = {}, Volume = None\<rparr>"

text \<open>
  Every operation of the plugin interface is given the driver, the request and the
  world, and gives back what it returns (or that it panicked), the driver and the world
  it leaves. Get, List, Path, Mount and Unmount assign nothing and call neither the
  mutex nor the operating system: they give back the driver and the world they were
  given.
\<close>

type_synonym call_result = "volume_Response outcome \<times> localPersistDriver \<times> world"

definition exists :: "localPersistDriver \<Rightarrow> string \<Rightarrow> bool" where
  "exists driver nm \<longleftrightarrow> mapIndex (volumes driver) nm \<noteq> ''''"

definition volume :: "localPersistDriver \<Rightarrow> string \<Rightarrow> volume_Volume" where
  "volume driver nm = \<lparr>VolName = nm, VolMountpoint = mapIndex (volumes driver) nm\<rparr>"

definition saveState ::
  "extern \<Rightarrow> localPersistDriver \<Rightarrow> strmap \<Rightarrow> world \<Rightarrow> go_error \<times> world" where
  "saveState ext driver vols w =
     (case json_Marshal ext \<lparr>State = vols\<rparr> of
        Inl err \<Rightarrow> (Some err, w)
      | Inr fileData \<Rightarrow>
          ioutil_WriteFile (path_Join [stateDir driver, name driver @ ''.json'']) fileData 384 w)"

definition findExistingVolumesFromStateFile ::
  "extern \<Rightarrow> localPersistDriver \<Rightarrow> world \<Rightarrow> go_error \<times> strmap" where
  "findExistingVolumesFromStateFile ext driver w =
     (case ioutil_ReadFile (path_Join [stateDir driver, name driver @ ''.json'']) w of
        Inl err \<Rightarrow> (Some err, GoMap Map.empty)
      | Inr fileData \<Rightarrow>
          (case json_Unmarshal ext fileData of
             Inl e \<Rightarrow> (Some e, GoMap Map.empty)
           | Inr data \<Rightarrow> (None, State data)))"

definition newLocalPersistDriver ::
  "extern \<Rightarrow> string \<Rightarrow> string \<Rightarrow> string \<Rightarrow> bool \<Rightarrow> world \<Rightarrow> localPersistDriver \<times> world" where
  "newLocalPersistDriver ext nm base state dbg w =
     (let driver = \<lparr>volumes = GoMap Map.empty, debug = dbg, name = nm,
                     baseDir = base, stateDir = state\<rparr>;
          w1 = os_Mkdir state 448 w
      in (driver\<lparr>volumes := snd (findExistingVolumesFromStateFile ext driver w1)\<rparr>, w1))"

definition Get :: "extern \<Rightarrow> localPersistDriver \<Rightarrow> volume_Request \<Rightarrow> world \<Rightarrow> call_result" where
  "Get ext driver req w =
     (if exists driver (Name req)
      then (Returns (Response0\<lparr>Volume := Some (volume driver (Name req))\<rparr>), driver, w)
      else (Returns (Response0\<lparr>Err := ''No volume found with the name '' @ cyan ext (Name req)\<rparr>),
            driver, w))"

definition List :: "localPersistDriver \<Rightarrow> volume_Request \<Rightarrow> world \<Rightarrow> call_result" where
  "List driver req w =
     (Returns (Response0\<lparr>Volumes := volume driver ` mapKeys (volumes driver)\<rparr>), driver, w)"

definition Create :: "extern \<Rightarrow> localPersistDriver \<Rightarrow> volume_Request \<Rightarrow> world \<Rightarrow> call_result" where
  "Create ext driver req w =
     (let mountpoint = mapIndex (Options req) ''mountpoint'' in
      if mountpoint = ''''
      then (Returns (Response0\<lparr>Err := ''The `mountpoint` option is required''\<rparr>), driver, w)
      else
        let realMountpoint = path_Join [baseDir driver, mountpoint];
            w1 = mutex_Lock w
        in if exists driver (Name req)
           then (Returns (Response0\<lparr>Err := ''The volume '' @ Name req @ '' already exists''\<rparr>),
                 driver, mutex_Unlock w1)
           else
             (case os_MkdirAll realMountpoint 493 w1 of
                (Some err, w2) \<Rightarrow> (Returns (Response0\<lparr>Err := err\<rparr>), driver, mutex_Unlock w2)
              | (None, w2) \<Rightarrow>
                  (case mapAssign (volumes driver) (Name req) mountpoint of
                     Panics msg \<Rightarrow> (Panics msg, driver, mutex_Unlock w2)
                   | Returns vols \<Rightarrow>
                       (let driver' = driver\<lparr>volumes := vols\<rparr>
                        in (Returns Response0, driver',
                            mutex_Unlock (snd (saveState ext driver' (volumes driver') w2)))))))"

definition Remove :: "extern \<Rightarrow> localPersistDriver \<Rightarrow> volume_Request \<Rightarrow> world \<Rightarrow> call_result" where
  "Remove ext driver req w =
     (let w1 = mutex_Lock w;
          driver' = driver\<lparr>volumes := mapDelete (volumes driver) (Name req)\<rparr>
      in (Returns Response0, driver',
          mutex_Unlock (snd (saveState ext driver' (volumes driver') w1))))"

definition Path :: "localPersistDriver \<Rightarrow> volume_Request \<Rightarrow> world \<Rightarrow> call_result" where
  "Path driver req w =
     (Returns (Response0\<lparr>Mountpoint :=
                 path_Join [baseDir driver, mapIndex (volumes driver) (Name req)]\<rparr>),
      driver, w)"

definition Mount :: "localPersistDriver \<Rightarrow> volume_Request \<Rightarrow> world \<Rightarrow> call_result" where
  "Mount driver req w = Path driver req w"

definition Unmount :: "localPersistDriver \<Rightarrow> volume_Request \<Rightarrow> world \<Rightarrow> call_result" where
  "Unmount driver req w = Path driver req w"

text \<open>
  The two loops of \<open>findExistingVolumesFromDockerDaemon\<close>: over the mounts of one
  container, and over the containers. A failed inspection panics.
\<close>

fun mounts_loop :: "string \<Rightarrow> (string \<rightharpoonup> string) \<Rightarrow> mountPoint list \<Rightarrow> (string \<rightharpoonup> string)" where
  "mounts_loop drv vols [] = vols"
| "mounts_loop drv vols (m # ms) =
     mounts_loop drv (if MountDriver m = drv then vols(MountName m \<mapsto> MountSource m) else vols) ms"

fun containers_loop ::
  "docker \<Rightarrow> string \<Rightarrow> (string \<rightharpoonup> string) \<Rightarrow> string list \<Rightarrow> (string \<rightharpoonup> string) outcome" where
  "containers_loop cli drv vols [] = Returns vols"
| "containers_loop cli drv vols (c # cs) =
     (case ContainerInspect cli c of
        Inl err \<Rightarrow> Panics err
      | Inr info \<Rightarrow> containers_loop cli drv (mounts_loop drv vols (Mounts info)) cs)"

definition findExistingVolumesFromDockerDaemon ::
  "extern \<Rightarrow> docker \<Rightarrow> localPersistDriver \<Rightarrow> world \<Rightarrow> (go_error \<times> strmap) outcome" where
  "findExistingVolumesFromDockerDaemon ext cli driver w =
     (case NewClient cli of
        Some err \<Rightarrow> Returns (Some err, GoMap Map.empty)
      | None \<Rightarrow>
          (case ContainerList cli of (containers, err) \<Rightarrow>
             (case containers_loop cli (name driver) Map.empty containers of
                Panics msg \<Rightarrow> Panics msg
              | Returns vols \<Rightarrow>
                  if err \<noteq> None \<or> vols = Map.empty
                  then Returns (findExistingVolumesFromStateFile ext driver w)
                  else Returns (None, GoMap vols))))"

section \<open>Example values\<close>

text \<open>
  The values the examples below run on. \<open>enc0\<close> and \<open>dec0\<close> stand in for
  \<open>json.Marshal\<close> and \<open>json.Unmarshal\<close>: a small codec that writes and reads the
  entry of \<open>vol1\<close> only, which is all the examples store.
\<close>

definition enc0 :: "saveData \<Rightarrow> string + string" where
  "enc0 d =
     (case State d of
        NilMap \<Rightarrow> Inr ''{state:null}''
      | GoMap m \<Rightarrow>
          (case m ''vol1'' of
             None \<Rightarrow> Inr ''{state:{}}''
           | Some v \<Rightarrow> Inr (''{state:{vol1:'' @ v @ ''}}'')))"

definition dec0 :: "string \<Rightarrow> string + saveData" where
  "dec0 s =
     (if s = ''{state:null}'' then Inr \<lparr>State = NilMap\<rparr>
      else if s = ''{state:{}}'' then Inr \<lparr>State = GoMap Map.empty\<rparr>
      else if take 13 s = ''{state:{vol1:'' \<and> drop (length s - 2) s = ''}}''
        then Inr \<lparr>State = GoMap [''vol1'' \<mapsto> take (length s - 15) (drop 13 s)]\<rparr>
      else Inl ''invalid character'')"

definition ext0 :: extern where
  "ext0 = \<lparr>json_Marshal = enc0, json_Unmarshal = dec0, cyan = (\<lambda>s. s)\<rparr>"

text \<open>
  An empty disk on which nothing fails, and a full one: every directory can be made,
  and every write fails after the open, with no byte written.
\<close>

definition world0 :: world where
  "world0 = \<lparr>files = Map.empty, mkdir_err = (\<lambda>p. None), write_err = (\<lambda>p. None), io_log = []\<rparr>"

definition world_full :: world where
  "world_full = world0\<lparr>write_err := (\<lambda>p. Some (WriteFailed ''no space left on device'' 0))\<rparr>"

text \<open>A disk whose state file holds \<open>vol1\<close>.\<close>

definition world_snap :: world where
  "world_snap = world0\<lparr>files :=
     [''/var/lib/docker/plugin-data/local-persist.json'' \<mapsto> ''{state:{vol1:data/vol1}}'']\<rparr>"

definition driver0 :: localPersistDriver where
  "driver0 = \<lparr>volumes = GoMap Map.empty, debug = False, name = ''local-persist'',
               baseDir = ''/mnt/base'', stateDir = ''/var/lib/docker/plugin-data''\<rparr>"

definition driver1 :: localPersistDriver where
  "driver1 = driver0\<lparr>volumes := GoMap [''vol1'' \<mapsto> ''data/vol1'']\<rparr>"

text \<open>A driver whose base directory is configured with a trailing slash.\<close>

definition driver_slash :: localPersistDriver where
  "driver_slash = driver0\<lparr>baseDir := ''/mnt/base/''\<rparr>"

text \<open>A driver that loaded \<open>vol3\<close> with an empty mountpoint.\<close>

definition driver_blank :: localPersistDriver where
  "driver_blank = driver0\<lparr>volumes := GoMap [''vol3'' \<mapsto> '''']\<rparr>"

definition req_vol1 :: volume_Request where
  "req_vol1 = \<lparr>Name = ''vol1'', Options = GoMap [''mountpoint'' \<mapsto> ''data/vol1'']\<rparr>"

definition req_vol1_other :: volume_Request where
  "req_vol1_other = \<lparr>Name = ''vol1'', Options = GoMap [''mountpoint'' \<mapsto> ''other/dir'']\<rparr>"

definition req_vol1_bare :: volume_Request where
  "req_vol1_bare = \<lparr>Name = ''vol1'', Options = GoMap Map.empty\<rparr>"

definition req_vol2_bare :: volume_Request where
  "req_vol2_bare = \<lparr>Name = ''vol2'', Options = GoMap Map.empty\<rparr>"

definition req_vol3 :: volume_Request where
  "req_vol3 = \<lparr>Name = ''vol3'', Options = GoMap [''mountpoint'' \<mapsto> ''data/vol3'']\<rparr>"

text \<open>
  Daemons: one with two containers that both mount \<open>vol1\<close> of this driver, from
  different sources; one whose only container cannot be inspected; one for which no
  client can be made; one that cannot be reached.
\<close>

definition docker_two :: docker where
  "docker_two =
     \<lparr>NewClient = None,
      ContainerList = ([''c1'', ''c2''], None),
      ContainerInspect = (\<lambda>c.
        if c = ''c1'' then Inr \<lparr>Mounts =
            [\<lparr>MountName = ''vol1'', MountSource = ''/p1'', MountDriver = ''local-persist''\<rparr>,
             \<lparr>MountName = ''cache'', MountSource = ''/var/cache'', MountDriver = ''local''\<rparr>]\<rparr>
        else if c = ''c2'' then Inr \<lparr>Mounts =
            [\<lparr>MountName = ''vol1'', MountSource = ''/p2'', MountDriver = ''local-persist''\<rparr>]\<rparr>
        else Inl ''No such container'')\<rparr>"

definition docker_gone :: docker where
  "docker_gone =
     \<lparr>NewClient = None,
      ContainerList = ([''c3''], None),
      ContainerInspect = (\<lambda>c. Inl ''No such container'')\<rparr>"

definition docker_no_client :: docker where
  "docker_no_client =
     \<lparr>NewClient = Some ''unable to parse docker host'',
      ContainerList = ([], None),
      ContainerInspect = (\<lambda>c. Inl ''No such container'')\<rparr>"

definition docker_down :: docker where
  "docker_down =
     \<lparr>NewClient = None,
      ContainerList = ([], Some ''Cannot connect to the Docker daemon''),
      ContainerInspect = (\<lambda>c. Inl ''No such container'')\<rparr>"




section \<open>Facts about path.Join\<close>

text \<open>The model on rows of the test tables of package \<open>path\<close>.\<close>

lemma path_Clean_examples:
  "path_Clean '''' = ''.''"
  "path_Clean ''abc/def/'' = ''abc/def''"
  "path_Clean ''//abc//'' = ''/abc''"
  "path_Clean ''/./abc/def'' = ''/abc/def''"
  "path_Clean ''abc/def/../ghi/../jkl'' = ''abc/jkl''"
  "path_Clean ''/abc/def/../../..'' = ''/''"
  "path_Clean ''abc/def/../../../ghi/jkl/../../../mno'' = ''../../mno''"
  "path_Clean ''abc/../../././../def'' = ''../../def''"
  by code_simp+

lemma path_Join_examples:
  "path_Join [] = ''''"
  "path_Join [''a'', ''b''] = ''a/b''"
  "path_Join [''a'', ''''] = ''a''"
  "path_Join ['''', ''b''] = ''b''"
  "path_Join [''/'', ''''] = ''/''"
  "path_Join [''a/'', ''b''] = ''a/b''"
  "path_Join ['''', ''''] = ''''"
  by code_simp+

text \<open>
  A trailing slash does not change what \<open>Clean\<close> returns, so joining a directory with
  the empty string cleans the directory and does nothing else.
\<close>

lemma dropWhile_snoc_slash:
  "dropWhile (\<lambda>x. x \<noteq> CHR ''/'') (rest @ ''/'') = dropWhile (\<lambda>x. x \<noteq> CHR ''/'') rest @ ''/''"
  by (induction rest) auto

lemma takeWhile_snoc_slash:
  "takeWhile (\<lambda>x. x \<noteq> CHR ''/'') (rest @ ''/'') = takeWhile (\<lambda>x. x \<noteq> CHR ''/'') rest"
  by (induction rest) auto

lemma clean_loop_slash:
  "clean_loop rooted (rest @ ''/'') out dotdot = clean_loop rooted rest out dotdot"
proof (induction rooted rest out dotdot rule: clean_loop.induct)
  case (1 rooted out dotdot)
  show ?case by (simp add: clean_loop.simps)
next
  case (2 rooted c rest out dotdot)
  let ?r = "rest @ ''/''"
  let ?dot = "\<lambda>xs. c = CHR ''.'' \<and> (xs = [] \<or> hd xs = CHR ''/'')"
  let ?dotdot = "\<lambda>xs. c = CHR ''.'' \<and> hd xs = CHR ''.'' \<and> (tl xs = [] \<or> hd (tl xs) = CHR ''/'')"
  have A: "?dot ?r = ?dot rest"
    by (cases rest) auto
  have B: "\<not> ?dot rest \<Longrightarrow> ?dotdot ?r = ?dotdot rest"
    by (cases rest; cases "tl rest") auto
  have T: "\<not> ?dot rest \<Longrightarrow> ?dotdot rest \<Longrightarrow> tl ?r = tl rest @ ''/''"
    by (cases rest) auto
  consider (slash) "c = CHR ''/''"
    | (dot) "c \<noteq> CHR ''/''" "?dot rest"
    | (dotdot) "c \<noteq> CHR ''/''" "\<not> ?dot rest" "?dotdot rest"
    | (elem) "c \<noteq> CHR ''/''" "\<not> ?dot rest" "\<not> ?dotdot rest"
    by blast
  then have "clean_loop rooted (c # ?r) out dotdot = clean_loop rooted (c # rest) out dotdot"
  proof cases
    case slash
    have "clean_loop rooted (c # ?r) out dotdot = clean_loop rooted ?r out dotdot"
      using slash by (subst clean_loop.simps(2)) simp
    moreover have "clean_loop rooted (c # rest) out dotdot = clean_loop rooted rest out dotdot"
      using slash by (subst clean_loop.simps(2)) simp
    ultimately show ?thesis using "2.IH"(1) slash by simp
  next
    case dot
    have c1: "(c = CHR ''/'') = False" and c2: "?dot rest = True" and c2': "?dot ?r = True"
      using dot A by simp_all
    have "clean_loop rooted (c # ?r) out dotdot = clean_loop rooted ?r out dotdot"
      by (subst clean_loop.simps(2)) (simp only: c1 c2' if_True if_False)
    moreover have "clean_loop rooted (c # rest) out dotdot = clean_loop rooted rest out dotdot"
      by (subst clean_loop.simps(2)) (simp only: c1 c2 if_True if_False)
    ultimately show ?thesis using "2.IH"(2) dot by simp
  next
    case dotdot
    have c1: "(c = CHR ''/'') = False" and c2: "?dot rest = False" and c2': "?dot ?r = False"
      and c3: "?dotdot rest = True" and c3': "?dotdot ?r = True"
      using dotdot A B by simp_all
    have L: "clean_loop rooted (c # ?r) out dotdot =
      (if length out > dotdot
                then clean_loop rooted (tl rest @ ''/'')
                       (backtrack dotdot (butlast out) (last out)) dotdot
              else if \<not> rooted
                then clean_loop rooted (tl rest @ ''/'')
                       ((if length out > 0 then out @ ''/'' else out) @ ''..'')
                       (length ((if length out > 0 then out @ ''/'' else out) @ ''..''))
              else clean_loop rooted (tl rest @ ''/'') out dotdot)"
      by (subst clean_loop.simps(2))
         (simp only: c1 c2' c3' if_True if_False, simp only: T[OF dotdot(2,3)])
    have R: "clean_loop rooted (c # rest) out dotdot =
      (if length out > dotdot
                then clean_loop rooted (tl rest)
                       (backtrack dotdot (butlast out) (last out)) dotdot
              else if \<not> rooted
                then clean_loop rooted (tl rest)
                       ((if length out > 0 then out @ ''/'' else out) @ ''..'')
                       (length ((if length out > 0 then out @ ''/'' else out) @ ''..''))
              else clean_loop rooted (tl rest) out dotdot)"
      by (subst clean_loop.simps(2)) (simp only: c1 c2 c3 if_True if_False)
    have I1: "length out > dotdot \<Longrightarrow> clean_loop rooted (tl rest @ ''/'')
                       (backtrack dotdot (butlast out) (last out)) dotdot = clean_loop rooted (tl rest)
                       (backtrack dotdot (butlast out) (last out)) dotdot"
      using "2.IH"(3) dotdot by blast
    have I2: "\<not> length out > dotdot \<Longrightarrow> \<not> rooted \<Longrightarrow> clean_loop rooted (tl rest @ ''/'')
                       ((if length out > 0 then out @ ''/'' else out) @ ''..'')
                       (length ((if length out > 0 then out @ ''/'' else out) @ ''..''))
         = clean_loop rooted (tl rest)
                       ((if length out > 0 then out @ ''/'' else out) @ ''..'')
                       (length ((if length out > 0 then out @ ''/'' else out) @ ''..''))"
      using "2.IH"(4) dotdot by blast
    have I3: "\<not> length out > dotdot \<Longrightarrow> \<not> \<not> rooted \<Longrightarrow>
         clean_loop rooted (tl rest @ ''/'') out dotdot = clean_loop rooted (tl rest) out dotdot"
      using "2.IH"(5) dotdot by blast
    show ?thesis
    proof (cases "dotdot < length out")
      case True
      then show ?thesis using I1 unfolding L R by simp
    next
      case False
      then show ?thesis using I2 I3 unfolding L R by (cases rooted) simp_all
    qed
  next
    case elem
    have c1: "(c = CHR ''/'') = False" and c2: "?dot rest = False" and c2': "?dot ?r = False"
      and c3: "?dotdot rest = False" and c3': "?dotdot ?r = False"
      using elem A B by simp_all
    have L: "clean_loop rooted (c # ?r) out dotdot =
       clean_loop rooted (dropWhile (\<lambda>x. x \<noteq> CHR ''/'') rest @ ''/'')
             ((if rooted \<and> length out \<noteq> 1 \<or> \<not> rooted \<and> length out \<noteq> 0
               then out @ ''/'' else out)
              @ c # takeWhile (\<lambda>x. x \<noteq> CHR ''/'') rest)
             dotdot"
      by (subst clean_loop.simps(2))
         (simp only: c1 c2' c3' if_True if_False dropWhile_snoc_slash takeWhile_snoc_slash)
    have R: "clean_loop rooted (c # rest) out dotdot =
       clean_loop rooted (dropWhile (\<lambda>x. x \<noteq> CHR ''/'') rest)
             ((if rooted \<and> length out \<noteq> 1 \<or> \<not> rooted \<and> length out \<noteq> 0
               then out @ ''/'' else out)
              @ c # takeWhile (\<lambda>x. x \<noteq> CHR ''/'') rest)
             dotdot"
      by (subst clean_loop.simps(2)) (simp only: c1 c2 c3 if_True if_False)
    show ?thesis unfolding L R
      using "2.IH"(6) elem by blast
  qed
  then show ?case by simp
qed

lemma clean_loop_Cons_slash:
  "clean_loop rooted (c # rest @ ''/'') out dotdot = clean_loop rooted (c # rest) out dotdot"
  using clean_loop_slash [of rooted "c # rest" out dotdot] by simp

lemma path_Clean_slash: "b \<noteq> [] \<Longrightarrow> path_Clean (b @ ''/'') = path_Clean b"
  by (cases b) (simp_all add: path_Clean_def clean_loop_slash clean_loop_Cons_slash)

lemma path_Join_empty_second:
  "path_Join [b, ''''] = (if b = '''' then '''' else path_Clean b)"
  by (simp add: path_Join_def path_Clean_slash)

section \<open>Create and Remove\<close>

lemma mapIndex_missing:
  "k \<notin> mapKeys s \<Longrightarrow> mapIndex s k = ''''"
  by (cases s) (auto simp: domIff)

lemma saveState_fixed:
  "saveState ext (driver\<lparr>volumes := v\<rparr>) vols w = saveState ext driver vols w"
  by (simp add: saveState_def split: sum.splits)

lemma saveState_error:
  "write_err w (path_Join [stateDir driver, name driver @ ''.json'']) = Some failure \<Longrightarrow>
   fst (saveState ext driver vols w) \<noteq> None"
  by (simp add: saveState_def ioutil_WriteFile_def split: sum.splits write_failure.splits)

text \<open>
  C3. When the options of a request have no \<open>mountpoint\<close> key, or map it to the empty
  string, Create fails with the message that the \<open>mountpoint\<close> option is required, and
  leaves the driver and the world as they were: nothing is locked, created or written (no
  snapshot write is requested), and a Get of a name that was not found before is still
  not found.
\<close>

theorem C3_Create_without_mountpoint:
  assumes "''mountpoint'' \<notin> mapKeys (Options req) \<or> mapIndex (Options req) ''mountpoint'' = ''''"
  shows "Create ext driver req w =
           (Returns (Response0\<lparr>Err := ''The `mountpoint` option is required''\<rparr>), driver, w)
         \<and> (\<not> exists driver (Name req) \<longrightarrow>
              (case Create ext driver req w of (r, driver', w') \<Rightarrow> Get ext driver' req w') =
                (Returns (Response0\<lparr>Err := ''No volume found with the name ''
                                            @ cyan ext (Name req)\<rparr>), driver, w))"
proof -
  have "mapIndex (Options req) ''mountpoint'' = ''''"
    using assms mapIndex_missing by blast
  then show ?thesis by (simp add: Create_def Get_def)
qed

theorem C3_Create_without_mountpoint_witness:
  "Create ext0 driver1 req_vol2_bare world0 =
     (Returns (Response0\<lparr>Err := ''The `mountpoint` option is required''\<rparr>), driver1, world0)
   \<and> (case Create ext0 driver1 req_vol2_bare world0 of (r, driver', w') \<Rightarrow>
          Get ext0 driver' req_vol2_bare w') =
       (Returns (Response0\<lparr>Err := ''No volume found with the name vol2''\<rparr>), driver1, world0)"
proof -
  have a: "''mountpoint'' \<notin> mapKeys (Options req_vol2_bare)
           \<or> mapIndex (Options req_vol2_bare) ''mountpoint'' = ''''"
    by (simp add: req_vol2_bare_def)
  have b: "\<not> exists driver1 (Name req_vol2_bare)"
    by (simp add: exists_def driver1_def driver0_def req_vol2_bare_def)
  have c: "cyan ext0 (Name req_vol2_bare) = ''vol2''"
    by (simp add: ext0_def req_vol2_bare_def)
  note inst = C3_Create_without_mountpoint [OF a, of ext0 driver1 world0]
  from inst have first: "Create ext0 driver1 req_vol2_bare world0 =
     (Returns (Response0\<lparr>Err := ''The `mountpoint` option is required''\<rparr>), driver1, world0)"
    by (rule conjunct1)
  from b c have second: "(case Create ext0 driver1 req_vol2_bare world0 of
        (r, driver', w') \<Rightarrow> Get ext0 driver' req_vol2_bare w') =
       (Returns (Response0\<lparr>Err := ''No volume found with the name vol2''\<rparr>), driver1, world0)"
    using conjunct2 [OF inst, rule_format, OF b] by simp
  from first second show ?thesis by (rule conjI)
qed

text \<open>
  C2 as the claim states it fails: when \<open>vol1\<close> exists and the second Create carries no
  \<open>mountpoint\<close> option, the option check comes first and the call fails with the
  message of the missing option, not with the one of the existing volume.
\<close>

theorem C2_Create_existing_counterexample:
  "exists driver1 (Name req_vol1_bare)
   \<and> fst (Create ext0 driver1 req_vol1_bare world0) =
       Returns (Response0\<lparr>Err := ''The `mountpoint` option is required''\<rparr>)
   \<and> fst (Create ext0 driver1 req_vol1_bare world0) \<noteq>
       Returns (Response0\<lparr>Err := ''The volume vol1 already exists''\<rparr>)"
  by (simp add: Create_def exists_def driver1_def driver0_def req_vol1_bare_def Response0_def)

text \<open>
  C2, amended. When the volume of a request exists, Create fails and changes nothing in
  the driver: with the message of the missing option when the options have no non-empty
  \<open>mountpoint\<close> (the world is untouched), and otherwise with the message that the volume
  already exists, whatever mountpoint the request carries (the mutex is locked and
  unlocked; nothing is created or written). A Get that follows still returns the volume
  with the mountpoint stored before.
\<close>

theorem C2_Create_existing:
  assumes "exists driver (Name req)"
  shows "Create ext driver req w =
           (if mapIndex (Options req) ''mountpoint'' = ''''
            then (Returns (Response0\<lparr>Err := ''The `mountpoint` option is required''\<rparr>),
                  driver, w)
            else (Returns (Response0\<lparr>Err := ''The volume '' @ Name req @ '' already exists''\<rparr>),
                  driver, w\<lparr>io_log := io_log w @ [Lock, Unlock]\<rparr>))
         \<and> (case Create ext driver req w of (r, driver', w') \<Rightarrow> Get ext driver' req w') =
             (Returns (Response0\<lparr>Volume :=
                 Some \<lparr>VolName = Name req,
                       VolMountpoint = mapIndex (volumes driver) (Name req)\<rparr>\<rparr>),
              driver, snd (snd (Create ext driver req w)))"
  using assms
  by (simp add: Create_def Get_def volume_def mutex_Lock_def mutex_Unlock_def Let_def)

theorem C2_Create_existing_witness:
  "Create ext0 driver0 req_vol1 world0 =
     (Returns Response0, driver1,
      world0\<lparr>files := [''/var/lib/docker/plugin-data/local-persist.json''
                          \<mapsto> ''{state:{vol1:data/vol1}}''],
              io_log := [Lock, MkdirAll ''/mnt/base/data/vol1'' 493,
                         WriteFile ''/var/lib/docker/plugin-data/local-persist.json''
                           ''{state:{vol1:data/vol1}}'' 384,
                         Unlock]\<rparr>)
   \<and> exists driver1 (Name req_vol1_other)
   \<and> Create ext0 driver1 req_vol1_other world0 =
       (Returns (Response0\<lparr>Err := ''The volume vol1 already exists''\<rparr>), driver1,
        world0\<lparr>io_log := [Lock, Unlock]\<rparr>)
   \<and> (case Create ext0 driver1 req_vol1_other world0 of (r, driver', w') \<Rightarrow>
          Get ext0 driver' req_vol1_other w') =
       (Returns (Response0\<lparr>Volume :=
           Some \<lparr>VolName = ''vol1'', VolMountpoint = ''data/vol1''\<rparr>\<rparr>),
        driver1, world0\<lparr>io_log := [Lock, Unlock]\<rparr>)"
proof -
  have a: "exists driver1 (Name req_vol1_other)"
    by (simp add: exists_def driver1_def driver0_def req_vol1_other_def)
  have p1: "path_Join [''/mnt/base'', ''data/vol1''] = ''/mnt/base/data/vol1''"
    by code_simp
  have p2: "path_Join [''/var/lib/docker/plugin-data'', ''local-persist.json'']
              = ''/var/lib/docker/plugin-data/local-persist.json''"
    by code_simp
  have first: "Create ext0 driver0 req_vol1 world0 =
     (Returns Response0, driver1,
      world0\<lparr>files := [''/var/lib/docker/plugin-data/local-persist.json''
                          \<mapsto> ''{state:{vol1:data/vol1}}''],
              io_log := [Lock, MkdirAll ''/mnt/base/data/vol1'' 493,
                         WriteFile ''/var/lib/docker/plugin-data/local-persist.json''
                           ''{state:{vol1:data/vol1}}'' 384,
                         Unlock]\<rparr>)"
    by (simp add: Create_def exists_def driver1_def driver0_def req_vol1_def world0_def
        mutex_Lock_def mutex_Unlock_def os_MkdirAll_def saveState_def ioutil_WriteFile_def
        ext0_def enc0_def p1 p2 Let_def)
  have b: "mapIndex (Options req_vol1_other) ''mountpoint'' \<noteq> ''''"
       "Name req_vol1_other = ''vol1''"
       "mapIndex (volumes driver1) ''vol1'' = ''data/vol1''"
       "io_log world0 = []"
    by (simp_all add: req_vol1_other_def driver1_def driver0_def world0_def)
  note inst = C2_Create_existing [OF a, of ext0 world0]
  have second: "Create ext0 driver1 req_vol1_other world0 =
       (Returns (Response0\<lparr>Err := ''The volume vol1 already exists''\<rparr>), driver1,
        world0\<lparr>io_log := [Lock, Unlock]\<rparr>)"
    using inst [THEN conjunct1] b by simp
  have third: "(case Create ext0 driver1 req_vol1_other world0 of (r, driver', w') \<Rightarrow>
          Get ext0 driver' req_vol1_other w') =
       (Returns (Response0\<lparr>Volume :=
           Some \<lparr>VolName = ''vol1'', VolMountpoint = ''data/vol1''\<rparr>\<rparr>),
        driver1, world0\<lparr>io_log := [Lock, Unlock]\<rparr>)"
    using inst [THEN conjunct2] b unfolding second by simp
  from first a second third show ?thesis by blast
qed

text \<open>
  C4. Remove returns the empty response (no error) for every name, whatever the map
  holds and whatever becomes of the snapshot. The map loses the key of the request and
  nothing else; when the key is absent the map is the one it was. The world that Remove
  leaves is the one \<open>saveState\<close> leaves, called on the new map between \<open>Lock\<close> and
  \<open>Unlock\<close>: a snapshot flush is requested, and when the map can be serialised the write
  of its serialisation is the one call logged between the two (also when the key was
  absent).
\<close>

theorem C4_Remove:
  "(case Remove ext driver req w of (r, driver', w') \<Rightarrow>
      r = Returns Response0
      \<and> driver' = driver\<lparr>volumes :=
            (case volumes driver of NilMap \<Rightarrow> NilMap
             | GoMap m \<Rightarrow> GoMap (m(Name req := None)))\<rparr>
      \<and> (Name req \<notin> mapKeys (volumes driver) \<longrightarrow> driver' = driver)
      \<and> (Name req \<in> mapKeys (volumes driver) \<longrightarrow>
            mapKeys (volumes driver') = mapKeys (volumes driver) - {Name req})
      \<and> w' = mutex_Unlock (snd (saveState ext driver (volumes driver') (mutex_Lock w)))
      \<and> (\<forall>fileData. json_Marshal ext \<lparr>State = volumes driver'\<rparr> = Inr fileData \<longrightarrow>
            io_log w' = io_log w @
              [Lock,
               WriteFile (path_Join [stateDir driver, name driver @ ''.json'']) fileData 384,
               Unlock]))"
proof -
  have absent: "Name req \<notin> mapKeys (volumes driver) \<Longrightarrow>
      mapDelete (volumes driver) (Name req) = volumes driver"
    by (cases "volumes driver") (auto simp: domIff)
  have present: "mapKeys (mapDelete (volumes driver) (Name req)) = mapKeys (volumes driver) - {Name req}"
    by (cases "volumes driver") auto
  have logged: "json_Marshal ext \<lparr>State = vols\<rparr> = Inr fileData \<Longrightarrow>
      io_log (mutex_Unlock (snd (saveState ext driver vols (mutex_Lock w)))) = io_log w @
        [Lock, WriteFile (path_Join [stateDir driver, name driver @ ''.json'']) fileData 384,
         Unlock]" for vols fileData
    by (simp add: saveState_def ioutil_WriteFile_def mutex_Lock_def mutex_Unlock_def
        split: option.splits write_failure.splits)
  have deleted: "mapDelete (volumes driver) (Name req) =
      (case volumes driver of NilMap \<Rightarrow> NilMap | GoMap m \<Rightarrow> GoMap (m(Name req := None)))"
    by (cases "volumes driver") auto
  show ?thesis
    using absent present logged
    by (simp add: Remove_def Let_def saveState_fixed flip: deleted)
qed

theorem C4_Remove_witness:
  "Remove ext0 driver1 req_vol2_bare world0 =
     (Returns Response0, driver1,
      world0\<lparr>files := [''/var/lib/docker/plugin-data/local-persist.json''
                          \<mapsto> ''{state:{vol1:data/vol1}}''],
              io_log := [Lock,
                         WriteFile ''/var/lib/docker/plugin-data/local-persist.json''
                           ''{state:{vol1:data/vol1}}'' 384,
                         Unlock]\<rparr>)
   \<and> Remove ext0 driver1 req_vol1_bare world0 =
     (Returns Response0, driver0,
      world0\<lparr>files := [''/var/lib/docker/plugin-data/local-persist.json''
                          \<mapsto> ''{state:{}}''],
              io_log := [Lock,
                         WriteFile ''/var/lib/docker/plugin-data/local-persist.json''
                           ''{state:{}}'' 384,
                         Unlock]\<rparr>)"
proof -
  have p: "path_Join [''/var/lib/docker/plugin-data'', ''local-persist.json'']
             = ''/var/lib/docker/plugin-data/local-persist.json''"
    by code_simp
  have s1: "saveState ext0 driver1 (GoMap [''vol1'' \<mapsto> ''data/vol1'']) (mutex_Lock world0) =
      (None, world0\<lparr>files := [''/var/lib/docker/plugin-data/local-persist.json''
                          \<mapsto> ''{state:{vol1:data/vol1}}''],
              io_log := [Lock,
                         WriteFile ''/var/lib/docker/plugin-data/local-persist.json''
                           ''{state:{vol1:data/vol1}}'' 384]\<rparr>)"
    by (simp add: saveState_def ioutil_WriteFile_def mutex_Lock_def ext0_def enc0_def
        driver1_def driver0_def world0_def p)
  have s2: "saveState ext0 driver1 (GoMap Map.empty) (mutex_Lock world0) =
      (None, world0\<lparr>files := [''/var/lib/docker/plugin-data/local-persist.json''
                          \<mapsto> ''{state:{}}''],
              io_log := [Lock,
                         WriteFile ''/var/lib/docker/plugin-data/local-persist.json''
                           ''{state:{}}'' 384]\<rparr>)"
    by (simp add: saveState_def ioutil_WriteFile_def mutex_Lock_def ext0_def enc0_def
        driver1_def driver0_def world0_def p)
  have absent: "Name req_vol2_bare \<notin> mapKeys (volumes driver1)"
    and v: "volumes driver1 = GoMap [''vol1'' \<mapsto> ''data/vol1'']"
    and n: "Name req_vol1_bare = ''vol1''"
    and d: "driver1\<lparr>volumes := GoMap Map.empty\<rparr> = driver0"
    by (simp_all add: req_vol2_bare_def req_vol1_bare_def driver1_def driver0_def)
  have first: "Remove ext0 driver1 req_vol2_bare world0 =
     (Returns Response0, driver1,
      world0\<lparr>files := [''/var/lib/docker/plugin-data/local-persist.json''
                          \<mapsto> ''{state:{vol1:data/vol1}}''],
              io_log := [Lock,
                         WriteFile ''/var/lib/docker/plugin-data/local-persist.json''
                           ''{state:{vol1:data/vol1}}'' 384,
                         Unlock]\<rparr>)"
    using C4_Remove [where ext = ext0 and driver = driver1 and req = req_vol2_bare
        and w = world0] absent v s1
    by (cases "Remove ext0 driver1 req_vol2_bare world0") (simp add: mutex_Unlock_def)
  have second: "Remove ext0 driver1 req_vol1_bare world0 =
     (Returns Response0, driver0,
      world0\<lparr>files := [''/var/lib/docker/plugin-data/local-persist.json''
                          \<mapsto> ''{state:{}}''],
              io_log := [Lock,
                         WriteFile ''/var/lib/docker/plugin-data/local-persist.json''
                           ''{state:{}}'' 384,
                         Unlock]\<rparr>)"
  proof (cases "Remove ext0 driver1 req_vol1_bare world0")
    case (fields r driver' w')
    from C4_Remove [where ext = ext0 and driver = driver1 and req = req_vol1_bare
        and w = world0] fields v n
    have r: "r = Returns Response0"
      and dr: "driver' = driver1\<lparr>volumes := GoMap Map.empty\<rparr>"
      and w: "w' = mutex_Unlock (snd (saveState ext0 driver1 (volumes driver') (mutex_Lock world0)))"
      by simp_all
    from dr d have "driver' = driver0" by simp
    with r w s2 fields show ?thesis by (simp add: mutex_Unlock_def driver0_def)
  qed
  from first second show ?thesis by (rule conjI)
qed

text \<open>
  C7. When the operating system fails the write of the snapshot file, at the open or
  after it, \<open>saveState\<close> returns an error whatever the map. All the same a Create that
  reaches it (non-empty \<open>mountpoint\<close>, name not existing, directory created, map not
  \<open>nil\<close>) still returns the empty response and the driver it leaves maps the name to the
  mountpoint; a Remove still returns the empty response and the driver it leaves has no
  entry for the name.
\<close>

theorem C7_failed_flush_is_kept:
  assumes "write_err w (path_Join [stateDir driver, name driver @ ''.json'']) = Some failure"
  shows "(\<forall>vols. fst (saveState ext driver vols w) \<noteq> None)
       \<and> (mapIndex (Options req) ''mountpoint'' \<noteq> '''' \<and> \<not> exists driver (Name req)
          \<and> mkdir_err w (path_Join [baseDir driver, mapIndex (Options req) ''mountpoint'']) = None
          \<and> volumes driver = GoMap m \<longrightarrow>
          (case Create ext driver req w of (r, driver', w') \<Rightarrow>
             r = Returns Response0
             \<and> volumes driver' = GoMap (m(Name req \<mapsto> mapIndex (Options req) ''mountpoint''))
             \<and> mapIndex (volumes driver') (Name req) = mapIndex (Options req) ''mountpoint''))
       \<and> (case Remove ext driver req w of (r, driver', w') \<Rightarrow>
             r = Returns Response0
             \<and> volumes driver' = mapDelete (volumes driver) (Name req)
             \<and> Name req \<notin> mapKeys (volumes driver'))"
proof -
  have absent: "k \<notin> mapKeys (mapDelete s k)" for s k
    by (cases s) auto
  show ?thesis
    using absent saveState_error [OF assms]
    by (simp add: Create_def Remove_def Let_def saveState_fixed os_MkdirAll_def
        mutex_Lock_def mutex_Unlock_def)
qed

theorem C7_failed_flush_is_kept_witness:
  "write_err world_full ''/var/lib/docker/plugin-data/local-persist.json''
     = Some (WriteFailed ''no space left on device'' 0)
   \<and> (case Create ext0 driver0 req_vol1 world_full of (r, driver', w') \<Rightarrow>
         r = Returns Response0 \<and> volumes driver' = GoMap [''vol1'' \<mapsto> ''data/vol1''])
   \<and> (case Remove ext0 driver1 req_vol1_bare world_full of (r, driver', w') \<Rightarrow>
         r = Returns Response0 \<and> volumes driver' = GoMap Map.empty)"
proof -
  have p: "path_Join [stateDir driver0, name driver0 @ ''.json'']
             = ''/var/lib/docker/plugin-data/local-persist.json''"
          "path_Join [stateDir driver1, name driver1 @ ''.json'']
             = ''/var/lib/docker/plugin-data/local-persist.json''"
    unfolding driver1_def driver0_def by simp_all code_simp+
  have a: "write_err world_full ''/var/lib/docker/plugin-data/local-persist.json''
             = Some (WriteFailed ''no space left on device'' 0)"
    by (simp add: world_full_def world0_def)
  have b: "mapIndex (Options req_vol1) ''mountpoint'' = ''data/vol1''"
      "\<not> exists driver0 (Name req_vol1)"
      "mkdir_err world_full x = None"
      "volumes driver0 = GoMap Map.empty"
      "Name req_vol1 = ''vol1''"
      "volumes driver1 = GoMap [''vol1'' \<mapsto> ''data/vol1'']"
      "Name req_vol1_bare = ''vol1''" for x
    by (simp_all add: req_vol1_def req_vol1_bare_def exists_def driver1_def driver0_def
        world_full_def world0_def)
  have c: "case Create ext0 driver0 req_vol1 world_full of (r, driver', w') \<Rightarrow>
         r = Returns Response0 \<and> volumes driver' = GoMap [''vol1'' \<mapsto> ''data/vol1'']"
    using C7_failed_flush_is_kept [where w = world_full and driver = driver0 and req = req_vol1
        and m = Map.empty and ext = ext0
        and failure = "WriteFailed ''no space left on device'' 0",
        THEN conjunct2, THEN conjunct1] a b p
    by (cases "Create ext0 driver0 req_vol1 world_full") simp
  have r: "case Remove ext0 driver1 req_vol1_bare world_full of (r, driver', w') \<Rightarrow>
         r = Returns Response0 \<and> volumes driver' = GoMap Map.empty"
    using C7_failed_flush_is_kept [where w = world_full and driver = driver1
        and req = req_vol1_bare and m = Map.empty and ext = ext0
        and failure = "WriteFailed ''no space left on device'' 0",
        THEN conjunct2, THEN conjunct2] a b p
    by (cases "Remove ext0 driver1 req_vol1_bare world_full") simp
  from a c r show ?thesis by blast
qed

text \<open>
  What a failed flush can leave on the disk: here the state file held \<open>vol1\<close>, the write
  of the Remove fails after the open, and the file is left empty.
\<close>

lemma failed_flush_truncates_state_file:
  "files (snd (snd (Remove ext0 driver1 req_vol2_bare
                      (world_snap\<lparr>write_err := write_err world_full\<rparr>))))
     ''/var/lib/docker/plugin-data/local-persist.json'' = Some ''''"
proof -
  have p: "path_Join [''/var/lib/docker/plugin-data'', ''local-persist.json'']
             = ''/var/lib/docker/plugin-data/local-persist.json''"
    by code_simp
  show ?thesis
    by (simp add: Remove_def Let_def saveState_def ioutil_WriteFile_def mutex_Lock_def
        mutex_Unlock_def ext0_def enc0_def driver1_def driver0_def req_vol2_bare_def
        world_snap_def world_full_def world0_def p)
qed

text \<open>
  Create never stores an empty mountpoint: a map without empty values has none after
  Create, so an empty value comes from the state file or the daemon.
\<close>

lemma Create_stores_no_empty_mountpoint:
  assumes "volumes driver = GoMap m" and "'''' \<notin> ran m"
    and "Create ext driver req w = (r, driver', w')"
  shows "\<exists>m'. volumes driver' = GoMap m' \<and> '''' \<notin> ran m'"
proof (cases "volumes driver' = volumes driver")
  case True
  with assms show ?thesis by simp
next
  case False
  with assms have "mapIndex (Options req) ''mountpoint'' \<noteq> ''''
      \<and> volumes driver' = GoMap (m(Name req \<mapsto> mapIndex (Options req) ''mountpoint''))"
    by (auto simp: Create_def Let_def os_MkdirAll_def split: if_splits option.splits)
  with assms(2) show ?thesis
    by (auto simp: ran_def split: if_splits)
qed

text \<open>
  C10. \<open>exists\<close> tests that the stored mountpoint is not the empty string, not that the
  key is there. So when the map holds the name of a request with the empty string, the
  name does not exist for the driver: Get answers that no volume was found, and a Create
  with a non-empty \<open>mountpoint\<close> whose directory can be created returns the empty
  response and stores the new mountpoint over the empty one.
\<close>

theorem C10_empty_mountpoint_is_absent:
  assumes "volumes driver = GoMap m" and "m (Name req) = Some ''''"
  shows "\<not> exists driver (Name req)
       \<and> Get ext driver req w =
           (Returns (Response0\<lparr>Err := ''No volume found with the name ''
                                       @ cyan ext (Name req)\<rparr>), driver, w)
       \<and> (mapIndex (Options req) ''mountpoint'' \<noteq> ''''
          \<and> mkdir_err w (path_Join [baseDir driver, mapIndex (Options req) ''mountpoint'']) = None
          \<longrightarrow> (case Create ext driver req w of (r, driver', w') \<Rightarrow>
                 r = Returns Response0
                 \<and> driver' = driver\<lparr>volumes :=
                      GoMap (m(Name req \<mapsto> mapIndex (Options req) ''mountpoint''))\<rparr>
                 \<and> exists driver' (Name req)))"
  using assms
  by (simp add: exists_def Get_def Create_def Let_def os_MkdirAll_def mutex_Lock_def)

theorem C10_empty_mountpoint_is_absent_witness:
  "volumes driver_blank = GoMap [''vol3'' \<mapsto> '''']
   \<and> Get ext0 driver_blank req_vol3 world0 =
       (Returns (Response0\<lparr>Err := ''No volume found with the name vol3''\<rparr>),
        driver_blank, world0)
   \<and> (case Create ext0 driver_blank req_vol3 world0 of (r, driver', w') \<Rightarrow>
         r = Returns Response0
         \<and> driver' = driver0\<lparr>volumes := GoMap [''vol3'' \<mapsto> ''data/vol3'']\<rparr>)"
proof -
  have a: "volumes driver_blank = GoMap [''vol3'' \<mapsto> '''']"
    and b: "[''vol3'' \<mapsto> ''''] (Name req_vol3) = Some ''''"
    and c: "mapIndex (Options req_vol3) ''mountpoint'' = ''data/vol3''"
      "mkdir_err world0 x = None" "Name req_vol3 = ''vol3''" "cyan ext0 y = y"
      "driver_blank\<lparr>volumes := GoMap [''vol3'' \<mapsto> ''data/vol3'']\<rparr>
         = driver0\<lparr>volumes := GoMap [''vol3'' \<mapsto> ''data/vol3'']\<rparr>" for x y
    by (simp_all add: driver_blank_def driver0_def req_vol3_def world0_def ext0_def)
  note inst = C10_empty_mountpoint_is_absent [where driver = driver_blank and req = req_vol3
      and m = "[''vol3'' \<mapsto> '''']" and ext = ext0 and w = world0, OF a b]
  have g: "Get ext0 driver_blank req_vol3 world0 =
       (Returns (Response0\<lparr>Err := ''No volume found with the name vol3''\<rparr>),
        driver_blank, world0)"
    using inst [THEN conjunct2, THEN conjunct1] c by simp
  have k: "case Create ext0 driver_blank req_vol3 world0 of (r, driver', w') \<Rightarrow>
         r = Returns Response0
         \<and> driver' = driver0\<lparr>volumes := GoMap [''vol3'' \<mapsto> ''data/vol3'']\<rparr>"
    using inst [THEN conjunct2, THEN conjunct2] c
    by (cases "Create ext0 driver_blank req_vol3 world0") simp
  from a g k show ?thesis by blast
qed

section \<open>Path, Mount and Unmount\<close>

text \<open>
  C5 as the claim states it fails: with the base directory \<open>/mnt/base/\<close>, the path of a
  name the driver does not know is \<open>/mnt/base\<close>, which is not the base directory as
  configured: \<open>path.Join\<close> cleans what it joins.
\<close>

theorem C5_Path_counterexample:
  "Name req_vol2_bare \<notin> mapKeys (volumes driver_slash)
   \<and> baseDir driver_slash = ''/mnt/base/''
   \<and> Path driver_slash req_vol2_bare world0 =
       (Returns (Response0\<lparr>Mountpoint := ''/mnt/base''\<rparr>), driver_slash, world0)
   \<and> Mountpoint (Response0\<lparr>Mountpoint := ''/mnt/base''\<rparr>) \<noteq> baseDir driver_slash"
proof -
  have "path_Join [''/mnt/base/'', ''''] = ''/mnt/base''"
    by code_simp
  then show ?thesis
    by (simp add: Path_def driver_slash_def driver0_def req_vol2_bare_def)
qed

text \<open>
  C5, amended. Path, and Mount and Unmount which call it, always return, with no error
  and with the driver and the world as they were. The mountpoint returned is
  \<open>path.Join(baseDir, m)\<close>, where \<open>m\<close> is the value stored for the name, or the empty
  string when the map has no such key. For a name the map does not have this is the
  base directory cleaned by \<open>path.Clean\<close> (or the empty string when the base directory
  is empty): it is exactly the base directory when the base directory is empty or
  already clean.
\<close>

theorem C5_Path:
  "Path driver req w =
     (Returns (Response0\<lparr>Mountpoint :=
        path_Join [baseDir driver, mapIndex (volumes driver) (Name req)]\<rparr>), driver, w)
   \<and> Mount driver req w = Path driver req w
   \<and> Unmount driver req w = Path driver req w
   \<and> (\<forall>m v. volumes driver = GoMap m \<and> m (Name req) = Some v \<longrightarrow>
         mapIndex (volumes driver) (Name req) = v)
   \<and> (Name req \<notin> mapKeys (volumes driver) \<longrightarrow>
         Path driver req w =
           (Returns (Response0\<lparr>Mountpoint :=
              (if baseDir driver = '''' then '''' else path_Clean (baseDir driver))\<rparr>),
            driver, w))
   \<and> (Name req \<notin> mapKeys (volumes driver)
        \<and> (baseDir driver = '''' \<or> path_Clean (baseDir driver) = baseDir driver) \<longrightarrow>
         Path driver req w = (Returns (Response0\<lparr>Mountpoint := baseDir driver\<rparr>), driver, w))"
  by (auto simp: Path_def Mount_def Unmount_def mapIndex_missing path_Join_empty_second)

theorem C5_Path_witness:
  "Path driver1 req_vol1_bare world0 =
     (Returns (Response0\<lparr>Mountpoint := ''/mnt/base/data/vol1''\<rparr>), driver1, world0)
   \<and> Name req_vol2_bare \<notin> mapKeys (volumes driver1)
   \<and> path_Clean (baseDir driver1) = baseDir driver1
   \<and> Path driver1 req_vol2_bare world0 =
       (Returns (Response0\<lparr>Mountpoint := ''/mnt/base''\<rparr>), driver1, world0)"
proof -
  have p: "path_Join [''/mnt/base'', ''data/vol1''] = ''/mnt/base/data/vol1''"
    by code_simp
  have q: "path_Clean ''/mnt/base'' = ''/mnt/base''"
    by code_simp
  have a: "Name req_vol2_bare \<notin> mapKeys (volumes driver1)"
    and b: "path_Clean (baseDir driver1) = baseDir driver1"
    using q by (simp_all add: req_vol2_bare_def driver1_def driver0_def)
  have c: "baseDir driver1 = ''/mnt/base''"
    "mapIndex (volumes driver1) (Name req_vol1_bare) = ''data/vol1''"
    by (simp_all add: req_vol1_bare_def driver1_def driver0_def)
  have first: "Path driver1 req_vol1_bare world0 =
     (Returns (Response0\<lparr>Mountpoint := ''/mnt/base/data/vol1''\<rparr>), driver1, world0)"
    using C5_Path [where driver = driver1 and req = req_vol1_bare and w = world0,
        THEN conjunct1] c p by simp
  have "Path driver1 req_vol2_bare world0 =
       (Returns (Response0\<lparr>Mountpoint := baseDir driver1\<rparr>), driver1, world0)"
    using C5_Path [where driver = driver1 and req = req_vol2_bare and w = world0,
        THEN conjunct2, THEN conjunct2, THEN conjunct2, THEN conjunct2, THEN conjunct2] a b
    by blast
  then have second: "Path driver1 req_vol2_bare world0 =
       (Returns (Response0\<lparr>Mountpoint := ''/mnt/base''\<rparr>), driver1, world0)"
    using c by simp
  from first a b second show ?thesis by blast
qed

section \<open>The snapshot\<close>

text \<open>Rows of \<open>json.Marshal\<close>: what it writes for some maps.\<close>

lemma go_Marshal_examples:
  "go_Marshal \<lparr>State = NilMap\<rparr> =
     Inr (''{'' @ [CHR 0x22] @ ''state'' @ [CHR 0x22] @ '':null}'')"
  "go_Marshal \<lparr>State = GoMap Map.empty\<rparr> =
     Inr (''{'' @ [CHR 0x22] @ ''state'' @ [CHR 0x22] @ '':{}}'')"
  "go_Marshal \<lparr>State = GoMap [''vol1'' \<mapsto> ''data/vol1'']\<rparr> =
     Inr (''{'' @ [CHR 0x22] @ ''state'' @ [CHR 0x22] @ '':{''
          @ [CHR 0x22] @ ''vol1'' @ [CHR 0x22] @ '':'' @ [CHR 0x22] @ ''data/vol1'' @ [CHR 0x22]
          @ ''}}'')"
  "go_Marshal \<lparr>State = GoMap [''b'' \<mapsto> ''2'', ''a'' \<mapsto> ''1'']\<rparr> =
     Inr (''{'' @ [CHR 0x22] @ ''state'' @ [CHR 0x22] @ '':{''
          @ [CHR 0x22] @ ''a'' @ [CHR 0x22] @ '':'' @ [CHR 0x22] @ ''1'' @ [CHR 0x22] @ '',''
          @ [CHR 0x22] @ ''b'' @ [CHR 0x22] @ '':'' @ [CHR 0x22] @ ''2'' @ [CHR 0x22]
          @ ''}}'')"
  by (simp_all add: go_Marshal_def mapEncoder_def appendString_def appendString_loop.simps utf8_DecodeRuneInString_def
      utf8_first_def htmlSafeSet_def escape_byte_def hex_def RuneError_def Let_def)

lemma appendString_examples:
  "appendString ''a<b'' = [CHR 0x22] @ ''a'' @ [CHR 0x5C] @ ''u003cb'' @ [CHR 0x22]"
  "appendString [CHR ''a'', CHR 0x22, CHR 0x5C, CHR 0x0A, CHR 0x01, CHR 0x7F] =
     [CHR 0x22] @ ''a'' @ [CHR 0x5C, CHR 0x22, CHR 0x5C, CHR 0x5C, CHR 0x5C] @ ''n''
     @ [CHR 0x5C] @ ''u0001'' @ [CHR 0x7F, CHR 0x22]"
  "appendString [CHR 0xC3, CHR 0xA9] = [CHR 0x22, CHR 0xC3, CHR 0xA9, CHR 0x22]"
  "appendString [CHR 0xE2, CHR 0x80, CHR 0xA8] = [CHR 0x22, CHR 0x5C] @ ''u2028'' @ [CHR 0x22]"
  "appendString [CHR 0xEF, CHR 0xBF, CHR 0xBD] = [CHR 0x22, CHR 0xEF, CHR 0xBF, CHR 0xBD, CHR 0x22]"
  "appendString [CHR 0xFF] = [CHR 0x22, CHR 0x5C] @ ''ufffd'' @ [CHR 0x22]"
  "appendString [CHR 0xC0, CHR 0x80] =
     [CHR 0x22, CHR 0x5C] @ ''ufffd'' @ [CHR 0x5C] @ ''ufffd'' @ [CHR 0x22]"
  by (simp_all add: appendString_def appendString_loop.simps utf8_DecodeRuneInString_def
      utf8_first_def htmlSafeSet_def escape_byte_def hex_def RuneError_def Let_def)






section \<open>Reconciliation with the Docker daemon\<close>

lemma mounts_loop_append:
  "mounts_loop drv vols (xs @ ys) = mounts_loop drv (mounts_loop drv vols xs) ys"
  by (induction xs arbitrary: vols) auto

lemma mounts_loop_dom:
  "dom (mounts_loop drv vols obs) = dom vols \<union> MountName ` {m \<in> set obs. MountDriver m = drv}"
  by (induction obs arbitrary: vols) auto

lemma mounts_loop_empty_iff:
  "mounts_loop drv Map.empty obs = Map.empty \<longleftrightarrow> (\<forall>m \<in> set obs. MountDriver m \<noteq> drv)"
proof -
  have "mounts_loop drv Map.empty obs = Map.empty
        \<longleftrightarrow> dom (mounts_loop drv Map.empty obs) = {}"
    by simp
  also have "\<dots> \<longleftrightarrow> (\<forall>m \<in> set obs. MountDriver m \<noteq> drv)"
    unfolding mounts_loop_dom by auto
  finally show ?thesis .
qed

text \<open>Every entry of the map built was there before or was reported for this driver.\<close>

lemma mounts_loop_reported:
  "mounts_loop drv vols obs k = Some p \<Longrightarrow>
   vols k = Some p \<or> (\<exists>m \<in> set obs. MountDriver m = drv \<and> MountName m = k \<and> MountSource m = p)"
  by (induction obs arbitrary: vols) (fastforce split: if_splits)+

lemma mounts_loop_other_names:
  "\<forall>m' \<in> set ms. MountDriver m' = drv \<longrightarrow> MountName m' \<noteq> k \<Longrightarrow>
   mounts_loop drv vols ms k = vols k"
  by (induction ms arbitrary: vols) auto

lemma mounts_loop_last:
  assumes "MountDriver m = drv"
    and "\<forall>m' \<in> set after. MountDriver m' = drv \<longrightarrow> MountName m' \<noteq> MountName m"
  shows "mounts_loop drv vols (before @ m # after) (MountName m) = Some (MountSource m)"
  using assms by (simp add: mounts_loop_append mounts_loop_other_names)

lemma containers_loop_inspected:
  "map (ContainerInspect cli) cs = map Inr infos \<Longrightarrow>
   containers_loop cli drv vols cs = Returns (mounts_loop drv vols (concat (map Mounts infos)))"
proof (induction cs arbitrary: vols infos)
  case Nil
  then show ?case by simp
next
  case (Cons c cs)
  then obtain info rest where infos: "infos = info # rest"
    and c: "ContainerInspect cli c = Inr info"
    and cs: "map (ContainerInspect cli) cs = map Inr rest"
    by (cases infos) auto
  from Cons.IH [OF cs] c show ?case
    by (simp add: infos mounts_loop_append)
qed

text \<open>A container that cannot be inspected makes the reconciliation panic.\<close>

lemma containers_loop_panics:
  "c \<in> set cs \<Longrightarrow> ContainerInspect cli c = Inl e \<Longrightarrow>
   \<exists>msg. containers_loop cli drv vols cs = Panics msg"
  by (induction cs arbitrary: vols) (auto split: sum.splits)

lemma reconcile_panics_on_failed_inspect:
  assumes "NewClient cli = None" and "c \<in> set (fst (ContainerList cli))"
    and "ContainerInspect cli c = Inl e"
  shows "\<exists>msg. findExistingVolumesFromDockerDaemon ext cli driver w = Panics msg"
proof -
  obtain msg where "containers_loop cli (name driver) Map.empty (fst (ContainerList cli)) = Panics msg"
    using containers_loop_panics [OF assms(2,3)] by blast
  with assms(1) show ?thesis
    by (cases "ContainerList cli") (simp add: findExistingVolumesFromDockerDaemon_def)
qed

text \<open>
  The constructor does not ask the daemon: it takes the map from the state file. Here
  it starts on the disk that holds \<open>vol1\<close>.
\<close>

lemma newLocalPersistDriver_loads_state_file:
  "newLocalPersistDriver ext0 ''local-persist'' ''/mnt/base'' ''/var/lib/docker/plugin-data''
     False world_snap =
   (driver1, world_snap\<lparr>io_log := [Mkdir ''/var/lib/docker/plugin-data'' 448]\<rparr>)"
proof -
  have p: "path_Join [''/var/lib/docker/plugin-data'', ''local-persist.json'']
             = ''/var/lib/docker/plugin-data/local-persist.json''"
    by code_simp
  show ?thesis
    by (simp add: newLocalPersistDriver_def findExistingVolumesFromStateFile_def
        ioutil_ReadFile_def os_Mkdir_def world_snap_def world0_def ext0_def dec0_def
        driver1_def driver0_def p)
qed

text \<open>
  C1 as the claim states it fails, in two runs on the disk whose state file holds
  \<open>vol1\<close>. When a container cannot be inspected the query has failed, and the function
  panics: there is no initial state. When no client can be made the query has failed
  too, and the function returns the empty map without reading the state file.
\<close>

theorem C1_reconcile_counterexample:
  "findExistingVolumesFromStateFile ext0 driver0 world_snap
     = (None, GoMap [''vol1'' \<mapsto> ''data/vol1''])
   \<and> findExistingVolumesFromDockerDaemon ext0 docker_gone driver0 world_snap
     = Panics ''No such container''
   \<and> findExistingVolumesFromDockerDaemon ext0 docker_no_client driver0 world_snap
     = Returns (Some ''unable to parse docker host'', GoMap Map.empty)"
proof -
  have p: "path_Join [''/var/lib/docker/plugin-data'', ''local-persist.json'']
             = ''/var/lib/docker/plugin-data/local-persist.json''"
    by code_simp
  show ?thesis
    by (simp add: findExistingVolumesFromDockerDaemon_def findExistingVolumesFromStateFile_def
        ioutil_ReadFile_def world_snap_def world0_def ext0_def dec0_def driver0_def p
        docker_gone_def docker_no_client_def)
qed

text \<open>
  C1, amended. In every run of \<open>findExistingVolumesFromDockerDaemon\<close> in which the client
  is made and every listed container can be inspected: if \<open>ContainerList\<close> returned no
  error and some mount reported belongs to this driver, the result is the map built from
  the mounts of this driver, with no error; otherwise the result is what
  \<open>findExistingVolumesFromStateFile\<close> returns. That is the map of the state file when the
  file can be read and parsed, and the empty map whenever it returns an error. In a run
  in which the client is made and some listed container cannot be inspected, the
  function panics.
\<close>

theorem C1_reconcile:
  assumes "NewClient cli = None" and "ContainerList cli = (cs, err)"
  shows "(\<forall>infos. map (ContainerInspect cli) cs = map Inr infos \<longrightarrow>
           findExistingVolumesFromDockerDaemon ext cli driver w =
             Returns (if err = None
                         \<and> (\<exists>m \<in> set (concat (map Mounts infos)). MountDriver m = name driver)
                      then (None, GoMap (mounts_loop (name driver) Map.empty
                                           (concat (map Mounts infos))))
                      else findExistingVolumesFromStateFile ext driver w))
       \<and> ((\<exists>c \<in> set cs. \<exists>e. ContainerInspect cli c = Inl e) \<longrightarrow>
           (\<exists>msg. findExistingVolumesFromDockerDaemon ext cli driver w = Panics msg))
       \<and> (\<forall>fileData data.
             files w (path_Join [stateDir driver, name driver @ ''.json'']) = Some fileData
             \<and> json_Unmarshal ext fileData = Inr data \<longrightarrow>
             findExistingVolumesFromStateFile ext driver w = (None, State data))
       \<and> (fst (findExistingVolumesFromStateFile ext driver w) \<noteq> None \<longrightarrow>
             snd (findExistingVolumesFromStateFile ext driver w) = GoMap Map.empty)"
proof -
  have first: "findExistingVolumesFromDockerDaemon ext cli driver w =
             Returns (if err = None
                         \<and> (\<exists>m \<in> set (concat (map Mounts infos)). MountDriver m = name driver)
                      then (None, GoMap (mounts_loop (name driver) Map.empty
                                           (concat (map Mounts infos))))
                      else findExistingVolumesFromStateFile ext driver w)"
    if inspected: "map (ContainerInspect cli) cs = map Inr infos" for infos
  proof -
    have live: "containers_loop cli (name driver) Map.empty cs =
        Returns (mounts_loop (name driver) Map.empty (concat (map Mounts infos)))"
      using inspected by (rule containers_loop_inspected)
    show ?thesis
      using assms mounts_loop_empty_iff [of "name driver" "concat (map Mounts infos)"]
      by (auto simp: findExistingVolumesFromDockerDaemon_def live)
  qed
  have panics: "\<exists>msg. findExistingVolumesFromDockerDaemon ext cli driver w = Panics msg"
    if "\<exists>c \<in> set cs. \<exists>e. ContainerInspect cli c = Inl e"
    using that assms reconcile_panics_on_failed_inspect [of cli _ _ ext driver w] by auto
  have second: "\<forall>fileData data.
             files w (path_Join [stateDir driver, name driver @ ''.json'']) = Some fileData
             \<and> json_Unmarshal ext fileData = Inr data \<longrightarrow>
             findExistingVolumesFromStateFile ext driver w = (None, State data)"
    by (simp add: findExistingVolumesFromStateFile_def ioutil_ReadFile_def)
  have third: "fst (findExistingVolumesFromStateFile ext driver w) \<noteq> None \<longrightarrow>
             snd (findExistingVolumesFromStateFile ext driver w) = GoMap Map.empty"
    by (simp add: findExistingVolumesFromStateFile_def split: sum.splits)
  from first panics second third show ?thesis by blast
qed

theorem C1_reconcile_witness:
  "findExistingVolumesFromDockerDaemon ext0 docker_two driver0 world_snap
     = Returns (None, GoMap [''vol1'' \<mapsto> ''/p2''])
   \<and> findExistingVolumesFromDockerDaemon ext0 docker_down driver0 world_snap
     = Returns (None, GoMap [''vol1'' \<mapsto> ''data/vol1''])
   \<and> findExistingVolumesFromDockerDaemon ext0 docker_down driver0 world0
     = Returns (Some ''open /var/lib/docker/plugin-data/local-persist.json: no such file or directory'',
                GoMap Map.empty)
   \<and> (\<exists>msg. findExistingVolumesFromDockerDaemon ext0 docker_gone driver0 world_snap = Panics msg)"
proof -
  let ?infos = "[\<lparr>Mounts =
            [\<lparr>MountName = ''vol1'', MountSource = ''/p1'', MountDriver = ''local-persist''\<rparr>,
             \<lparr>MountName = ''cache'', MountSource = ''/var/cache'', MountDriver = ''local''\<rparr>]\<rparr>,
          \<lparr>Mounts =
            [\<lparr>MountName = ''vol1'', MountSource = ''/p2'', MountDriver = ''local-persist''\<rparr>]\<rparr>]"
  have p: "path_Join [''/var/lib/docker/plugin-data'', ''local-persist.json'']
             = ''/var/lib/docker/plugin-data/local-persist.json''"
    by code_simp
  have snap: "findExistingVolumesFromStateFile ext0 driver0 world_snap
     = (None, GoMap [''vol1'' \<mapsto> ''data/vol1''])"
    by (simp add: findExistingVolumesFromStateFile_def ioutil_ReadFile_def world_snap_def
        world0_def ext0_def dec0_def driver0_def p)
  have none: "findExistingVolumesFromStateFile ext0 driver0 world0
     = (Some ''open /var/lib/docker/plugin-data/local-persist.json: no such file or directory'',
        GoMap Map.empty)"
    by (simp add: findExistingVolumesFromStateFile_def ioutil_ReadFile_def
        world0_def ext0_def driver0_def p)
  have two: "NewClient docker_two = None" "ContainerList docker_two = ([''c1'', ''c2''], None)"
    and two_inspected: "map (ContainerInspect docker_two) [''c1'', ''c2''] = map Inr ?infos"
    by (simp_all add: docker_two_def)
  have down: "NewClient docker_down = None"
    "ContainerList docker_down = ([], Some ''Cannot connect to the Docker daemon'')"
    and down_inspected: "map (ContainerInspect docker_down) [] = map Inr []"
    by (simp_all add: docker_down_def)
  have gone: "NewClient docker_gone = None" "ContainerList docker_gone = ([''c3''], None)"
    and gone_failed: "\<exists>c \<in> set [''c3'']. \<exists>e. ContainerInspect docker_gone c = Inl e"
    by (simp_all add: docker_gone_def)
  have n: "name driver0 = ''local-persist''"
    by (simp add: driver0_def)
  have a: "findExistingVolumesFromDockerDaemon ext0 docker_two driver0 world_snap
     = Returns (None, GoMap [''vol1'' \<mapsto> ''/p2''])"
    using C1_reconcile [OF two, where ext = ext0 and driver = driver0 and w = world_snap,
        THEN conjunct1, rule_format, OF two_inspected] n
    by simp
  have b: "findExistingVolumesFromDockerDaemon ext0 docker_down driver0 world_snap
     = Returns (None, GoMap [''vol1'' \<mapsto> ''data/vol1''])"
    using C1_reconcile [OF down, where ext = ext0 and driver = driver0 and w = world_snap,
        THEN conjunct1, rule_format, OF down_inspected] snap
    by simp
  have c: "findExistingVolumesFromDockerDaemon ext0 docker_down driver0 world0
     = Returns (Some ''open /var/lib/docker/plugin-data/local-persist.json: no such file or directory'',
                GoMap Map.empty)"
    using C1_reconcile [OF down, where ext = ext0 and driver = driver0 and w = world0,
        THEN conjunct1, rule_format, OF down_inspected] none
    by simp
  have d: "\<exists>msg. findExistingVolumesFromDockerDaemon ext0 docker_gone driver0 world_snap = Panics msg"
    using C1_reconcile [OF gone, where ext = ext0 and driver = driver0 and w = world_snap,
        THEN conjunct2, THEN conjunct1] gone_failed
    by blast
  from a b c d show ?thesis by blast
qed

text \<open>
  C8. Take a run in which the client is made, \<open>ContainerList\<close> returns no error and
  every container can be inspected, and read the mounts reported in the order of the
  containers and, within a container, of its mounts. If \<open>m\<close> is a mount of this driver
  and no mount of this driver after it has its name, the map returned gives the source
  of \<open>m\<close> for that name, whatever sources the mounts before \<open>m\<close> reported for it.
\<close>

theorem C8_last_observation_wins:
  assumes "NewClient cli = None" and "ContainerList cli = (cs, None)"
    and "map (ContainerInspect cli) cs = map Inr infos"
    and "concat (map Mounts infos) = before @ m # after"
    and "MountDriver m = name driver"
    and "\<forall>m' \<in> set after. MountDriver m' = name driver \<longrightarrow> MountName m' \<noteq> MountName m"
  shows "\<exists>live. findExistingVolumesFromDockerDaemon ext cli driver w = Returns (None, GoMap live)
                \<and> live (MountName m) = Some (MountSource m)"
proof -
  let ?live = "mounts_loop (name driver) Map.empty (concat (map Mounts infos))"
  have "containers_loop cli (name driver) Map.empty cs = Returns ?live"
    using assms(3) by (rule containers_loop_inspected)
  moreover have at_m: "?live (MountName m) = Some (MountSource m)"
    unfolding assms(4) using assms(5,6) by (rule mounts_loop_last)
  moreover from at_m have "?live \<noteq> Map.empty"
    by auto
  ultimately have "findExistingVolumesFromDockerDaemon ext cli driver w = Returns (None, GoMap ?live)"
    using assms(1,2) by (simp add: findExistingVolumesFromDockerDaemon_def)
  with at_m show ?thesis by blast
qed

theorem C8_last_observation_wins_witness:
  "\<exists>live. findExistingVolumesFromDockerDaemon ext0 docker_two driver0 world0
             = Returns (None, GoMap live)
          \<and> live ''vol1'' = Some ''/p2''"
proof -
  let ?m1 = "\<lparr>MountName = ''vol1'', MountSource = ''/p1'', MountDriver = ''local-persist''\<rparr>"
  let ?m2 = "\<lparr>MountName = ''cache'', MountSource = ''/var/cache'', MountDriver = ''local''\<rparr>"
  let ?m3 = "\<lparr>MountName = ''vol1'', MountSource = ''/p2'', MountDriver = ''local-persist''\<rparr>"
  have a: "NewClient docker_two = None" "ContainerList docker_two = ([''c1'', ''c2''], None)"
    "map (ContainerInspect docker_two) [''c1'', ''c2'']
       = map Inr [\<lparr>Mounts = [?m1, ?m2]\<rparr>, \<lparr>Mounts = [?m3]\<rparr>]"
    by (simp_all add: docker_two_def)
  have b: "concat (map Mounts [\<lparr>Mounts = [?m1, ?m2]\<rparr>, \<lparr>Mounts = [?m3]\<rparr>]) = [?m1, ?m2] @ ?m3 # []"
    by simp
  have c: "MountDriver ?m3 = name driver0"
    by (simp add: driver0_def)
  have d: "\<forall>m' \<in> set []. MountDriver m' = name driver0 \<longrightarrow> MountName m' \<noteq> MountName ?m3"
    by simp
  from C8_last_observation_wins [OF a b c d, of ext0 world0]
  show ?thesis by simp
qed

section \<open>The mutex\<close>

text \<open>
  C9 does not hold of the code. Get, List, Path, Mount and Unmount read the map and
  leave the world as it was: they log no \<open>Lock\<close>. Only Remove, and Create once the
  \<open>mountpoint\<close> option is found, lock the mutex first and unlock it last. What the
  claim concludes about concurrent calls is outside this sequential model.
\<close>

theorem C9_reads_take_no_lock:
  "Get ext driver req w =
     (Returns (if exists driver (Name req)
               then Response0\<lparr>Volume := Some \<lparr>VolName = Name req,
                      VolMountpoint = mapIndex (volumes driver) (Name req)\<rparr>\<rparr>
               else Response0\<lparr>Err := ''No volume found with the name '' @ cyan ext (Name req)\<rparr>),
      driver, w)
   \<and> io_log (snd (snd (Get ext driver req w))) = io_log w
   \<and> io_log (snd (snd (List driver req w))) = io_log w
   \<and> io_log (snd (snd (Path driver req w))) = io_log w
   \<and> io_log (snd (snd (Mount driver req w))) = io_log w
   \<and> io_log (snd (snd (Unmount driver req w))) = io_log w
   \<and> (\<exists>evs. io_log (snd (snd (Remove ext driver req w))) = io_log w @ Lock # evs @ [Unlock])
   \<and> (\<exists>evs. io_log (snd (snd (Create ext driver req w))) =
         (if mapIndex (Options req) ''mountpoint'' = '''' then io_log w
          else io_log w @ Lock # evs @ [Unlock]))"
proof -
  have save: "\<exists>evs. io_log (snd (saveState ext d vols w1)) = io_log w1 @ evs" for d vols w1
    by (auto simp: saveState_def ioutil_WriteFile_def
        split: sum.splits option.splits write_failure.splits)
  have remove: "\<exists>evs. io_log (snd (snd (Remove ext driver req w))) = io_log w @ Lock # evs @ [Unlock]"
    using save [of driver "mapDelete (volumes driver) (Name req)" "mutex_Lock w"]
    by (auto simp: Remove_def Let_def saveState_fixed mutex_Lock_def mutex_Unlock_def)
  have create: "\<exists>evs. io_log (snd (snd (Create ext driver req w))) =
         (if mapIndex (Options req) ''mountpoint'' = '''' then io_log w
          else io_log w @ Lock # evs @ [Unlock])"
  proof (cases "mapIndex (Options req) ''mountpoint'' = ''''")
    case True
    then show ?thesis by (simp add: Create_def)
  next
    case False
    note mp = this
    show ?thesis
    proof (cases "exists driver (Name req)")
      case True
      with mp show ?thesis
        by (simp add: Create_def Let_def mutex_Lock_def mutex_Unlock_def)
    next
      case False
      note ne = this
      show ?thesis
      proof (cases "mkdir_err w (path_Join [baseDir driver, mapIndex (Options req) ''mountpoint''])")
        case (Some e)
        with mp ne show ?thesis
          by (simp add: Create_def Let_def mutex_Lock_def mutex_Unlock_def os_MkdirAll_def)
      next
        case None
        show ?thesis
        proof (cases "volumes driver")
          case NilMap
          with mp ne None show ?thesis
            by (simp add: Create_def Let_def mutex_Lock_def mutex_Unlock_def os_MkdirAll_def)
        next
          case (GoMap m)
          obtain evs where "io_log (snd (saveState ext driver
               (GoMap (m(Name req \<mapsto> mapIndex (Options req) ''mountpoint'')))
               (w\<lparr>io_log := io_log w @ [Lock,
                  MkdirAll (path_Join [baseDir driver, mapIndex (Options req) ''mountpoint'']) 493]\<rparr>)))
             = (io_log w @ [Lock,
                  MkdirAll (path_Join [baseDir driver, mapIndex (Options req) ''mountpoint'']) 493]) @ evs"
            using save [of driver _ "w\<lparr>io_log := io_log w @ [Lock,
                  MkdirAll (path_Join [baseDir driver, mapIndex (Options req) ''mountpoint'']) 493]\<rparr>"]
            by auto
          with mp ne None GoMap show ?thesis
            by (simp add: Create_def Let_def mutex_Lock_def mutex_Unlock_def os_MkdirAll_def
                saveState_fixed)
        qed
      qed
    qed
  qed
  from remove create show ?thesis
    by (simp add: Get_def List_def Path_def Mount_def Unmount_def volume_def)
qed

end
